theory Spec2Isabelle
  imports Main "HOL-Library.Word" "HOL-Library.Sublist"
begin

section \<open>C strings and the libc functions the transport calls\<close>

text \<open>
  A \<^verbatim>\<open>const char*\<close> that may be null is a \<open>string option\<close>. A \<open>string\<close> holds the
  characters of a NUL-terminated string before its terminator. \<open>c_at s i\<close> is the read
  \<^verbatim>\<open>s[i]\<close>: the terminator sits at index \<open>length s\<close>, and a read beyond it has no
  value.
\<close>

type_synonym byte = "8 word"

definition NUL :: char where
  "NUL = CHR 0x00"

definition c_at :: "string \<Rightarrow> nat \<Rightarrow> char option" where
  "c_at s i = (if i < length s then Some (s ! i)
               else if i = length s then Some NUL else None)"

definition strlen :: "string \<Rightarrow> nat" where
  "strlen s = length s"

text \<open>
  \<^verbatim>\<open>strcmp\<close> and \<^verbatim>\<open>strncmp\<close> compare as unsigned char and stop at the terminator; the
  C standard fixes the sign of the result only, and the transport tests it against 0.
\<close>

definition uchar_cmp :: "char \<Rightarrow> char \<Rightarrow> int" where
  "uchar_cmp x y = (if (of_char x :: nat) < of_char y then - 1 else 1)"

fun strcmp :: "string \<Rightarrow> string \<Rightarrow> int" where
  "strcmp [] [] = 0"
| "strcmp [] (y # ys) = - 1"
| "strcmp (x # xs) [] = 1"
| "strcmp (x # xs) (y # ys) = (if x = y then strcmp xs ys else uchar_cmp x y)"

fun strncmp :: "string \<Rightarrow> string \<Rightarrow> nat \<Rightarrow> int" where
  "strncmp s t 0 = 0"
| "strncmp [] [] (Suc n) = 0"
| "strncmp [] (y # ys) (Suc n) = - 1"
| "strncmp (x # xs) [] (Suc n) = 1"
| "strncmp (x # xs) (y # ys) (Suc n) =
     (if x = y then strncmp xs ys n else uchar_cmp x y)"

text \<open>
  \<^verbatim>\<open>snprintf(buf, n, ...)\<close> stores at most \<open>n - 1\<close> characters of the formatted text
  and the terminator. \<^verbatim>\<open>strncpy(dst, src, n); dst[n] = '\0'\<close> leaves the first \<open>n\<close>
  characters of \<open>src\<close>.
\<close>

definition snprintf :: "nat \<Rightarrow> string \<Rightarrow> string" where
  "snprintf n s = take (n - 1) s"

definition strncpy_term :: "string \<Rightarrow> nat \<Rightarrow> string" where
  "strncpy_term src n = take n src"

definition hex_digit :: "nat \<Rightarrow> char" where
  "hex_digit d = (if d < 16 then ''0123456789ABCDEF'' ! d else CHR ''?'')"

definition fmt_02X :: "byte \<Rightarrow> string" where
  "fmt_02X b = [hex_digit (unat b div 16), hex_digit (unat b mod 16)]"

definition bytes_of :: "string \<Rightarrow> byte list" where
  "bytes_of s = map of_char s"

section \<open>Configuration, adapter state, environment and effects\<close>

record MqttConfig =
  broker :: "string option"
  port :: "16 word"
  username :: "string option"
  password :: "string option"
  clientId :: "string option"
  baseTopic :: "string option"
  deviceId :: "string option"
  enableStatus :: bool
  birthPayload :: string
  lwtPayload :: string
  retainStatus :: bool
  reconnectInterval :: "32 word"
  qos :: "8 word"

definition default_config :: MqttConfig where
  "default_config = \<lparr> broker = None, port = 1883, username = None, password = None,
     clientId = None, baseTopic = Some ''espmole'', deviceId = None,
     enableStatus = True, birthPayload = ''online'', lwtPayload = ''offline'',
     retainStatus = True, reconnectInterval = 5000, qos = 0 \<rparr>"

definition TOPIC_MAX_LEN :: nat where
  "TOPIC_MAX_LEN = 80"

definition DEVICE_ID_MAX_LEN :: nat where
  "DEVICE_ID_MAX_LEN = 32"

definition RESPONSE_BUFFER_SIZE :: nat where
  "RESPONSE_BUFFER_SIZE = 256"

type_synonym PeerHandle = "32 word"

definition PEER_MQTT :: PeerHandle where
  "PEER_MQTT = 0xFFFF0001"

text \<open>
  A non-null client pointer is an address; a nullable one is an \<open>option\<close>. The
  dispatcher is the call \<^verbatim>\<open>ingest(peer, request, requestLen, response, capacity)\<close>: the
  model's function returns the bytes it wrote to the response buffer, and the returned
  length is their number. The user callback is known by its identity.
\<close>

type_synonym client_ptr = nat

type_synonym Dispatcher = "PeerHandle \<Rightarrow> byte list \<Rightarrow> nat \<Rightarrow> nat \<Rightarrow> byte list"

datatype mac_address = Mac byte byte byte byte byte byte

text \<open>
  The members of the class carry the suffix \<open>_m\<close> where the source has a trailing
  underscore.
\<close>

record MqttTransport =
  dispatcher_m :: "Dispatcher option"
  config_m :: MqttConfig
  standaloneMode_m :: bool
  cmdTopic_m :: string
  respTopic_m :: string
  statusTopic_m :: string
  eventTopic_m :: string
  deviceId_m :: string
  asyncClient_m :: "client_ptr option"
  pubSubClient_m :: "client_ptr option"
  ownsClient_m :: bool
  userCallback_m :: "nat option"
  wasConnected_m :: bool
  lastReconnectAttempt_m :: "32 word"

text \<open>
  What a call reads from outside the object: the compile-time switch
  \<^verbatim>\<open>ESPMOLE_HAS_PUBSUBCLIENT\<close>, the hardware address, the clock, what
  \<^verbatim>\<open>connected()\<close> answers on the attached client, what the PubSubClient calls return,
  and the address \<^verbatim>\<open>new AsyncMqttClient()\<close> yields.
\<close>

record env =
  hasPubSubClient :: bool
  macAddress :: mac_address
  millis :: "32 word"
  asyncConnected :: bool
  pubSubConnected :: bool
  pubSubPublishResult :: bool
  pubSubSubscribeResult :: bool
  newAsyncMqttClient :: client_ptr

text \<open>Every call the transport makes on a collaborator, in order.\<close>

datatype effect =
    NewAsyncMqttClient client_ptr
  | SetServer client_ptr string "16 word"
  | SetCredentials client_ptr string "string option"
  | SetClientId client_ptr string
  | SetWill client_ptr string "8 word" bool string
  | OnConnect client_ptr
  | OnDisconnect client_ptr
  | OnMessage client_ptr
  | Connect client_ptr
  | Disconnect client_ptr
  | DeleteClient client_ptr
  | AsyncSubscribe client_ptr string "8 word"
  | AsyncPublish client_ptr string "8 word" bool "byte list" nat
  | PubSubSubscribe client_ptr string
  | PubSubPublish client_ptr string "byte list" nat bool
  | Ingest PeerHandle "byte list" nat nat
  | UserCallback nat string "byte list" nat

section \<open>Constructors and destructor\<close>

definition MqttTransport_integration :: "Dispatcher option \<Rightarrow> MqttTransport" where
  "MqttTransport_integration d = \<lparr> dispatcher_m = d, config_m = default_config,
     standaloneMode_m = False, cmdTopic_m = [], respTopic_m = [], statusTopic_m = [],
     eventTopic_m = [], deviceId_m = [], asyncClient_m = None, pubSubClient_m = None,
     ownsClient_m = False, userCallback_m = None, wasConnected_m = False,
     lastReconnectAttempt_m = 0 \<rparr>"

definition MqttTransport_standalone :: "Dispatcher option \<Rightarrow> MqttConfig \<Rightarrow> MqttTransport" where
  "MqttTransport_standalone d cfg = \<lparr> dispatcher_m = d, config_m = cfg,
     standaloneMode_m = True, cmdTopic_m = [], respTopic_m = [], statusTopic_m = [],
     eventTopic_m = [], deviceId_m = [], asyncClient_m = None, pubSubClient_m = None,
     ownsClient_m = False, userCallback_m = None, wasConnected_m = False,
     lastReconnectAttempt_m = 0 \<rparr>"

definition destroy :: "MqttTransport \<Rightarrow> MqttTransport \<times> effect list" where
  "destroy st =
     (if ownsClient_m st \<and> asyncClient_m st \<noteq> None
      then (let c = the (asyncClient_m st)
            in (st\<lparr>asyncClient_m := None\<rparr>, [Disconnect c, DeleteClient c]))
      else (st, []))"

definition setUserCallback :: "MqttTransport \<Rightarrow> nat option \<Rightarrow> MqttTransport" where
  "setUserCallback st cb = st\<lparr>userCallback_m := cb\<rparr>"

section \<open>Topic building\<close>

definition mac_hex :: "mac_address \<Rightarrow> string" where
  "mac_hex m = (case m of Mac a b c d e f \<Rightarrow>
     fmt_02X a @ fmt_02X b @ fmt_02X c @ fmt_02X d @ fmt_02X e @ fmt_02X f)"

definition buildDeviceId :: "env \<Rightarrow> MqttTransport \<Rightarrow> MqttTransport" where
  "buildDeviceId ev st =
     (case deviceId (config_m st) of
        Some d \<Rightarrow> st\<lparr>deviceId_m := strncpy_term d (DEVICE_ID_MAX_LEN - 1)\<rparr>
      | None \<Rightarrow> st\<lparr>deviceId_m := snprintf DEVICE_ID_MAX_LEN (mac_hex (macAddress ev))\<rparr>)"

definition base_of :: "MqttConfig \<Rightarrow> string" where
  "base_of cfg = (case baseTopic cfg of Some b \<Rightarrow> b | None \<Rightarrow> ''espmole'')"

definition buildTopics :: "env \<Rightarrow> MqttTransport \<Rightarrow> MqttTransport" where
  "buildTopics ev st =
     (let st1 = buildDeviceId ev st;
          base = base_of (config_m st1)
      in st1\<lparr> cmdTopic_m := snprintf TOPIC_MAX_LEN (base @ ''/'' @ deviceId_m st1 @ ''/cmd''),
              respTopic_m := snprintf TOPIC_MAX_LEN (base @ ''/'' @ deviceId_m st1 @ ''/resp''),
              statusTopic_m := snprintf TOPIC_MAX_LEN (base @ ''/'' @ deviceId_m st1 @ ''/status''),
              eventTopic_m := snprintf TOPIC_MAX_LEN (base @ ''/'' @ deviceId_m st1 @ ''/event'') \<rparr>)"

section \<open>Common implementation\<close>

definition connected :: "env \<Rightarrow> MqttTransport \<Rightarrow> bool" where
  "connected ev st =
     (if asyncClient_m st \<noteq> None then asyncConnected ev
      else if hasPubSubClient ev \<and> pubSubClient_m st \<noteq> None then pubSubConnected ev
      else False)"

definition subscribeToCommandTopic :: "env \<Rightarrow> MqttTransport \<Rightarrow> effect list" where
  "subscribeToCommandTopic ev st =
     (if asyncClient_m st \<noteq> None
      then [AsyncSubscribe (the (asyncClient_m st)) (cmdTopic_m st) (qos (config_m st))]
      else if hasPubSubClient ev \<and> pubSubClient_m st \<noteq> None
      then [PubSubSubscribe (the (pubSubClient_m st)) (cmdTopic_m st)]
      else [])"

definition mqttPublish ::
  "env \<Rightarrow> MqttTransport \<Rightarrow> string \<Rightarrow> byte list \<Rightarrow> nat \<Rightarrow> 8 word \<Rightarrow> bool \<Rightarrow> bool \<times> effect list" where
  "mqttPublish ev st topic payload len q retain =
     (if asyncClient_m st \<noteq> None \<and> asyncConnected ev
      then (True, [AsyncPublish (the (asyncClient_m st)) topic q retain payload len])
      else if hasPubSubClient ev \<and> pubSubClient_m st \<noteq> None \<and> pubSubConnected ev
      then (pubSubPublishResult ev,
            [PubSubPublish (the (pubSubClient_m st)) topic payload len retain])
      else (False, []))"

definition publishBirth :: "env \<Rightarrow> MqttTransport \<Rightarrow> effect list" where
  "publishBirth ev st =
     (if \<not> enableStatus (config_m st) then []
      else snd (mqttPublish ev st (statusTopic_m st)
                  (bytes_of (birthPayload (config_m st)))
                  (strlen (birthPayload (config_m st)))
                  1 (retainStatus (config_m st))))"

definition isMoleTopic :: "MqttTransport \<Rightarrow> string \<Rightarrow> bool" where
  "isMoleTopic st topic =
     (let base = base_of (config_m st);
          baseLen = strlen base
      in strncmp topic base baseLen = 0 \<and> c_at topic baseLen = Some (CHR ''/''))"

definition processCommand :: "env \<Rightarrow> MqttTransport \<Rightarrow> byte list \<Rightarrow> nat \<Rightarrow> effect list" where
  "processCommand ev st payload len =
     (case dispatcher_m st of
        None \<Rightarrow> []
      | Some d \<Rightarrow>
          (let response = d PEER_MQTT payload len RESPONSE_BUFFER_SIZE;
               respLen = length response
           in Ingest PEER_MQTT payload len RESPONSE_BUFFER_SIZE #
              (if respLen > 0
               then snd (mqttPublish ev st (respTopic_m st) response respLen
                           (qos (config_m st)) False)
               else [])))"

section \<open>Standalone mode\<close>

definition begin_transport :: "env \<Rightarrow> MqttTransport \<Rightarrow> MqttTransport \<times> effect list" where
  "begin_transport ev st =
     (let st1 = (if \<not> standaloneMode_m st then st\<lparr>standaloneMode_m := True\<rparr> else st);
          st2 = buildTopics ev st1;
          cfg = config_m st2
      in case broker cfg of
           None \<Rightarrow> (st2, [])
         | Some b \<Rightarrow>
             (let c = newAsyncMqttClient ev;
                  st3 = st2\<lparr>asyncClient_m := Some c, ownsClient_m := True\<rparr>
              in (st3,
                  [NewAsyncMqttClient c, SetServer c b (port cfg)]
                  @ (case username cfg of
                       Some u \<Rightarrow> [SetCredentials c u (password cfg)]
                     | None \<Rightarrow> [])
                  @ [SetClientId c (case clientId cfg of Some i \<Rightarrow> i | None \<Rightarrow> deviceId_m st3)]
                  @ (if enableStatus cfg
                     then [SetWill c (statusTopic_m st3) 1 (retainStatus cfg) (lwtPayload cfg)]
                     else [])
                  @ [OnConnect c, OnDisconnect c, OnMessage c, Connect c])))"

definition poll :: "env \<Rightarrow> MqttTransport \<Rightarrow> MqttTransport \<times> effect list" where
  "poll ev st =
     (if \<not> standaloneMode_m st \<or> asyncClient_m st = None then (st, [])
      else
        (let c = the (asyncClient_m st);
             isConnected = asyncConnected ev;
             st1 = (if \<not> isConnected \<and> wasConnected_m st
                    then st\<lparr>wasConnected_m := False\<rparr> else st)
         in if \<not> isConnected
            then (let now = millis ev
                  in if now - lastReconnectAttempt_m st1 \<ge> reconnectInterval (config_m st1)
                     then (st1\<lparr>lastReconnectAttempt_m := now\<rparr>, [Connect c])
                     else (st1, []))
            else (st1, [])))"

definition onAsyncConnect :: "env \<Rightarrow> MqttTransport \<Rightarrow> MqttTransport \<times> effect list" where
  "onAsyncConnect ev st =
     (let st1 = st\<lparr>wasConnected_m := True\<rparr>
      in (st1, subscribeToCommandTopic ev st1 @ publishBirth ev st1))"

definition onAsyncDisconnect :: "MqttTransport \<Rightarrow> MqttTransport" where
  "onAsyncDisconnect st = st\<lparr>wasConnected_m := False\<rparr>"

section \<open>Integration mode and message handling\<close>

definition attachTo_Async :: "env \<Rightarrow> MqttTransport \<Rightarrow> client_ptr \<Rightarrow> MqttTransport \<times> effect list" where
  "attachTo_Async ev st client =
     (let st1 = st\<lparr>asyncClient_m := Some client, ownsClient_m := False,
                   standaloneMode_m := False\<rparr>;
          st2 = buildTopics ev st1
      in (st2,
          if enableStatus (config_m st2)
          then [SetWill client (statusTopic_m st2) 1 (retainStatus (config_m st2))
                  (lwtPayload (config_m st2))]
          else []))"

definition attachTo_PubSub :: "env \<Rightarrow> MqttTransport \<Rightarrow> client_ptr \<Rightarrow> MqttTransport \<times> effect list" where
  "attachTo_PubSub ev st client =
     (if hasPubSubClient ev
      then (let st1 = st\<lparr>pubSubClient_m := Some client, ownsClient_m := False,
                         standaloneMode_m := False\<rparr>;
                st2 = buildTopics ev st1
            in (st2, subscribeToCommandTopic ev st2 @ publishBirth ev st2))
      else (st, []))"

definition onMqttConnect :: "env \<Rightarrow> MqttTransport \<Rightarrow> effect list" where
  "onMqttConnect ev st = subscribeToCommandTopic ev st @ publishBirth ev st"

definition handleMessage ::
  "env \<Rightarrow> MqttTransport \<Rightarrow> string \<Rightarrow> byte list \<Rightarrow> nat \<Rightarrow> bool \<times> effect list" where
  "handleMessage ev st topic payload len =
     (if strcmp topic (cmdTopic_m st) \<noteq> 0
      then (if isMoleTopic st topic then (True, [])
            else (False,
                  case userCallback_m st of
                    Some cb \<Rightarrow> [UserCallback cb topic payload len]
                  | None \<Rightarrow> []))
      else (True, processCommand ev st payload len))"

definition onAsyncMessage ::
  "env \<Rightarrow> MqttTransport \<Rightarrow> string \<Rightarrow> byte list \<Rightarrow> nat \<Rightarrow> nat \<Rightarrow> nat \<Rightarrow> effect list" where
  "onAsyncMessage ev st topic payload len index total_len =
     (if index \<noteq> 0 \<or> len \<noteq> total_len then []
      else snd (handleMessage ev st topic payload len))"

section \<open>The transport interface\<close>

definition send :: "env \<Rightarrow> MqttTransport \<Rightarrow> PeerHandle \<Rightarrow> byte list \<Rightarrow> nat \<Rightarrow> bool \<times> effect list" where
  "send ev st peer data len =
     mqttPublish ev st (respTopic_m st) data len (qos (config_m st)) False"

definition broadcast :: "env \<Rightarrow> MqttTransport \<Rightarrow> byte list \<Rightarrow> nat \<Rightarrow> bool \<times> effect list" where
  "broadcast ev st data len =
     mqttPublish ev st (eventTopic_m st) data len (qos (config_m st)) False"

definition subscribe :: "env \<Rightarrow> MqttTransport \<Rightarrow> string \<Rightarrow> 8 word \<Rightarrow> bool \<times> effect list" where
  "subscribe ev st topic q =
     (if asyncClient_m st \<noteq> None \<and> asyncConnected ev
      then (True, [AsyncSubscribe (the (asyncClient_m st)) topic q])
      else if hasPubSubClient ev \<and> pubSubClient_m st \<noteq> None \<and> pubSubConnected ev
      then (pubSubSubscribeResult ev, [PubSubSubscribe (the (pubSubClient_m st)) topic])
      else (False, []))"

definition publish ::
  "env \<Rightarrow> MqttTransport \<Rightarrow> string \<Rightarrow> byte list \<Rightarrow> nat \<Rightarrow> 8 word \<Rightarrow> bool \<Rightarrow> bool \<times> effect list" where
  "publish ev st topic payload len q retain = mqttPublish ev st topic payload len q retain"

section \<open>Observations on effects, example collaborators, and the specification's classifier\<close>

fun is_publish :: "effect \<Rightarrow> bool" where
  "is_publish (AsyncPublish c t q r p n) = True"
| "is_publish (PubSubPublish c t p n r) = True"
| "is_publish e = False"

fun is_subscribe :: "effect \<Rightarrow> bool" where
  "is_subscribe (AsyncSubscribe c t q) = True"
| "is_subscribe (PubSubSubscribe c t) = True"
| "is_subscribe e = False"

fun is_connect :: "effect \<Rightarrow> bool" where
  "is_connect (Connect c) = True"
| "is_connect e = False"

definition connect_attempts :: "effect list \<Rightarrow> nat" where
  "connect_attempts es = length (filter is_connect es)"

text \<open>
  Collaborators for the concrete evaluations. The example dispatcher answers every
  request with the request itself, cut to the capacity of the response buffer. The
  example environment has no PubSubClient support compiled in, a disconnected client and
  the clock at 0. The example configuration is the one the standalone example sketch
  sets up (\<^verbatim>\<open>examples/standalone/main.cpp\<close>), with the device identifier of the
  unit test.
\<close>

definition echo_dispatcher :: Dispatcher where
  "echo_dispatcher peer request requestLen capacity = take capacity (take requestLen request)"

definition example_env :: env where
  "example_env = \<lparr> hasPubSubClient = False,
     macAddress = Mac 0x24 0x6F 0x28 0xAB 0x0C 0xD1, millis = 0,
     asyncConnected = False, pubSubConnected = False, pubSubPublishResult = False,
     pubSubSubscribeResult = False, newAsyncMqttClient = 1 \<rparr>"

definition example_config :: MqttConfig where
  "example_config = default_config\<lparr> broker := Some ''192.168.1.100'', port := 1883,
     deviceId := Some ''test123'' \<rparr>"

text \<open>
  The classifier as the specification words it (section 4.2): \<open>OwnCommand\<close> iff the topic
  equals the command topic; \<open>OwnOther\<close> iff it begins with the base followed by the
  separator and is not the command topic; \<open>Foreign\<close> otherwise.
\<close>

datatype topic_class = OwnCommand | OwnOther | Foreign

definition classify_spec :: "string \<Rightarrow> string \<Rightarrow> string \<Rightarrow> topic_class" where
  "classify_spec cmd base topic =
     (if topic = cmd then OwnCommand
      else if prefix (base @ ''/'') topic then OwnOther
      else Foreign)"

text \<open>
  Sequences of activation calls on one adapter; each call comes with the environment it
  runs in.
\<close>

datatype activation = Begin | AttachAsync client_ptr | AttachPubSub client_ptr

fun activate :: "MqttTransport \<Rightarrow> env \<times> activation \<Rightarrow> MqttTransport" where
  "activate st (ev, Begin) = fst (begin_transport ev st)"
| "activate st (ev, AttachAsync c) = fst (attachTo_Async ev st c)"
| "activate st (ev, AttachPubSub c) = fst (attachTo_PubSub ev st c)"

definition run_activations :: "MqttTransport \<Rightarrow> (env \<times> activation) list \<Rightarrow> MqttTransport" where
  "run_activations st calls = foldl activate st calls"

section \<open>Facts about the string functions\<close>

lemma uchar_cmp_nonzero: "uchar_cmp x y \<noteq> 0"
  by (simp add: uchar_cmp_def)

lemma strcmp_eq_0_iff: "(strcmp s t = 0) = (s = t)"
  by (induction s t rule: strcmp.induct) (simp_all add: uchar_cmp_nonzero)

lemma strncmp_eq_0_iff: "(strncmp s t (length t) = 0) = prefix t s"
proof (induction t arbitrary: s)
  case Nil
  show ?case by simp
next
  case (Cons y ys)
  show ?case
  proof (cases s)
    case Nil
    then show ?thesis by simp
  next
    case (Cons x xs)
    with Cons.IH [of xs] show ?thesis
      by (simp add: uchar_cmp_nonzero)
  qed
qed

lemma c_at_append: "c_at (b @ r) (length b) = Some (case r of [] \<Rightarrow> NUL | x # _ \<Rightarrow> x)"
  by (cases r) (simp_all add: c_at_def)

lemma isMoleTopic_iff: "isMoleTopic st topic = prefix (base_of (config_m st) @ ''/'') topic"
proof -
  let ?b = "base_of (config_m st)"
  show ?thesis
  proof (cases "prefix ?b topic")
    case False
    then have "\<not> prefix (?b @ ''/'') topic"
      using append_prefixD by blast
    with False show ?thesis
      by (simp add: isMoleTopic_def Let_def strlen_def strncmp_eq_0_iff)
  next
    case True
    then obtain r where r: "topic = ?b @ r" by (auto simp: prefix_def)
    have "c_at topic (length ?b) = Some (CHR ''/'') \<longleftrightarrow> prefix ''/'' r"
      unfolding r c_at_append by (cases r) (auto simp: NUL_def)
    with True r show ?thesis
      by (simp add: isMoleTopic_def Let_def strlen_def strncmp_eq_0_iff)
  qed
qed

lemma handleMessage_by_class:
  "handleMessage ev st topic payload len =
     (case classify_spec (cmdTopic_m st) (base_of (config_m st)) topic of
        OwnCommand \<Rightarrow> (True, processCommand ev st payload len)
      | OwnOther \<Rightarrow> (True, [])
      | Foreign \<Rightarrow> (False, case userCallback_m st of
                             Some cb \<Rightarrow> [UserCallback cb topic payload len]
                           | None \<Rightarrow> []))"
  by (simp add: handleMessage_def classify_spec_def strcmp_eq_0_iff isMoleTopic_iff)

lemma cmdTopic_buildTopics_neq_base:
  assumes "length (base_of (config_m st)) < TOPIC_MAX_LEN - 1"
  shows "cmdTopic_m (buildTopics ev st) \<noteq> base_of (config_m st)"
proof -
  let ?b = "base_of (config_m st)"
  have cfg: "config_m (buildDeviceId ev st) = config_m st"
    by (simp add: buildDeviceId_def split: option.splits)
  obtain r where c: "cmdTopic_m (buildTopics ev st) = take (TOPIC_MAX_LEN - 1) (?b @ ''/'' @ r)"
    by (simp add: buildTopics_def Let_def snprintf_def cfg)
  have "length (take (TOPIC_MAX_LEN - 1) (?b @ ''/'' @ r)) > length ?b"
    using assms by simp
  with c show ?thesis by auto
qed

section \<open>Message classification\<close>

text \<open>
  Claim C1. For every inbound topic, \<open>handleMessage\<close> does what the specification's
  three-way classification prescribes: the command branch (\<open>OwnCommand\<close>) is taken
  exactly when \<^verbatim>\<open>strcmp\<close> finds the topic equal to the command topic, which is
  equality character for character; the absorbing branch (\<open>OwnOther\<close>) exactly when the
  topic is not the command topic and \<open>isMoleTopic\<close> holds, which is the base followed
  at once by the separator being a prefix of the topic; the foreign branch otherwise. In
  particular a topic that is the base itself, or that continues the base with anything
  but the separator, takes the foreign branch unless it is the command topic, and after
  the topics have been built from a base that fits the topic buffer the base itself is
  never the command topic, so it is foreign.
\<close>

theorem handleMessage_classifies:
  "(let cmd = cmdTopic_m st;
        base = base_of (config_m st);
        cls = classify_spec cmd base topic;
        foreign = (False, case userCallback_m st of
                            Some cb \<Rightarrow> [UserCallback cb topic payload len]
                          | None \<Rightarrow> [])
    in handleMessage ev st topic payload len =
         (case cls of
            OwnCommand \<Rightarrow> (True, processCommand ev st payload len)
          | OwnOther \<Rightarrow> (True, [])
          | Foreign \<Rightarrow> foreign)
       \<and> ((cls = OwnCommand) = (strcmp topic cmd = 0))
       \<and> ((strcmp topic cmd = 0) = (topic = cmd))
       \<and> ((cls = OwnOther) = (strcmp topic cmd \<noteq> 0 \<and> isMoleTopic st topic))
       \<and> (isMoleTopic st topic = prefix (base @ ''/'') topic)
       \<and> ((cls = Foreign) = (strcmp topic cmd \<noteq> 0 \<and> \<not> isMoleTopic st topic))
       \<and> (topic \<noteq> cmd \<and> topic = base
            \<longrightarrow> handleMessage ev st topic payload len = foreign)
       \<and> (topic \<noteq> cmd \<and> prefix base topic \<and> c_at topic (length base) \<noteq> Some (CHR ''/'')
            \<longrightarrow> handleMessage ev st topic payload len = foreign)
       \<and> (length base < TOPIC_MAX_LEN - 1
            \<longrightarrow> fst (handleMessage ev (buildTopics ev' st) base payload len) = False))"
proof -
  let ?cmd = "cmdTopic_m st" and ?base = "base_of (config_m st)"
  let ?cls = "classify_spec ?cmd ?base topic"
  have mole: "isMoleTopic st topic = prefix (?base @ ''/'') topic"
    by (rule isMoleTopic_iff)
  have c1: "(?cls = OwnCommand) = (strcmp topic ?cmd = 0)"
    by (simp add: classify_spec_def strcmp_eq_0_iff)
  have c2: "(?cls = OwnOther) = (strcmp topic ?cmd \<noteq> 0 \<and> isMoleTopic st topic)"
    by (simp add: classify_spec_def strcmp_eq_0_iff mole)
  have c3: "(?cls = Foreign) = (strcmp topic ?cmd \<noteq> 0 \<and> \<not> isMoleTopic st topic)"
    by (simp add: classify_spec_def strcmp_eq_0_iff mole)
  have nosep: "\<not> prefix (?base @ ''/'') topic"
    if "prefix ?base topic" "c_at topic (length ?base) \<noteq> Some (CHR ''/'')"
  proof -
    from that(1) obtain r where r: "topic = ?base @ r" by (auto simp: prefix_def)
    from that(2) show ?thesis unfolding r c_at_append by (cases r) auto
  qed
  have p1: "handleMessage ev st topic payload len =
              (False, case userCallback_m st of
                        Some cb \<Rightarrow> [UserCallback cb topic payload len] | None \<Rightarrow> [])"
    if "topic \<noteq> ?cmd" "topic = ?base"
    using that by (auto simp add: handleMessage_by_class classify_spec_def)
  have p2: "handleMessage ev st topic payload len =
              (False, case userCallback_m st of
                        Some cb \<Rightarrow> [UserCallback cb topic payload len] | None \<Rightarrow> [])"
    if "topic \<noteq> ?cmd" "prefix ?base topic" "c_at topic (length ?base) \<noteq> Some (CHR ''/'')"
    using that(1) nosep [OF that(2,3)] by (simp add: handleMessage_by_class classify_spec_def)
  have cfg: "config_m (buildTopics ev' st) = config_m st"
    by (simp add: buildTopics_def buildDeviceId_def Let_def split: option.splits)
  have p3: "fst (handleMessage ev (buildTopics ev' st) ?base payload len) = False"
    if "length ?base < TOPIC_MAX_LEN - 1"
    using cmdTopic_buildTopics_neq_base [OF that, of ev']
    by (auto simp add: handleMessage_by_class classify_spec_def cfg)
  show ?thesis
    unfolding Let_def
    apply (intro conjI impI)
    subgoal by (rule handleMessage_by_class)
    subgoal by (rule c1)
    subgoal by (rule strcmp_eq_0_iff)
    subgoal by (rule c2)
    subgoal by (rule mole)
    subgoal by (rule c3)
    subgoal using p1 by blast
    subgoal using p2 by blast
    subgoal by (rule p3)
    done
qed

theorem handleMessage_classifies_witness:
  "(let st = buildTopics example_env
               (MqttTransport_standalone (Some echo_dispatcher) example_config);
        lab = buildTopics example_env
                (MqttTransport_standalone (Some echo_dispatcher)
                   (example_config\<lparr>baseTopic := Some ''home/lab''\<rparr>))
    in ''espmole'' \<noteq> cmdTopic_m st \<and> ''espmole'' = base_of (config_m st)
       \<and> handleMessage example_env st ''espmole'' [] 0 = (False, [])
       \<and> ''espmole2/test123/cmd'' \<noteq> cmdTopic_m st
       \<and> prefix (base_of (config_m st)) ''espmole2/test123/cmd''
       \<and> c_at ''espmole2/test123/cmd'' (length (base_of (config_m st))) \<noteq> Some (CHR ''/'')
       \<and> handleMessage example_env st ''espmole2/test123/cmd'' [] 0 = (False, [])
       \<and> length (base_of (config_m st)) < TOPIC_MAX_LEN - 1
       \<and> fst (handleMessage example_env (buildTopics example_env st)
                (base_of (config_m st)) [] 0) = False
       \<and> ''home/lab'' \<noteq> cmdTopic_m lab \<and> ''home/lab'' = base_of (config_m lab)
       \<and> handleMessage example_env lab ''home/lab'' [] 0 = (False, [])
       \<and> handleMessage example_env lab ''home/lab/other'' [] 0 = (True, [])
       \<and> handleMessage example_env lab ''espmole/device/cmd'' [] 0 = (False, []))"
proof -
  let ?st = "buildTopics example_env
               (MqttTransport_standalone (Some echo_dispatcher) example_config)"
  let ?lab = "buildTopics example_env
                (MqttTransport_standalone (Some echo_dispatcher)
                   (example_config\<lparr>baseTopic := Some ''home/lab''\<rparr>))"
  have l1: "''home/lab'' \<noteq> cmdTopic_m ?lab \<and> ''home/lab'' = base_of (config_m ?lab)"
    by code_simp
  have lcb: "userCallback_m ?lab = None"
    by code_simp
  have other: "classify_spec (cmdTopic_m ?lab) (base_of (config_m ?lab)) ''home/lab/other''
                 = OwnOther"
    and outside: "classify_spec (cmdTopic_m ?lab) (base_of (config_m ?lab)) ''espmole/device/cmd''
                 = Foreign"
    by code_simp+
  from l1 handleMessage_classifies
         [of ?lab "''home/lab''" "[]" 0 example_env example_env, unfolded Let_def]
  have "handleMessage example_env ?lab ''home/lab'' [] 0
          = (False, case userCallback_m ?lab of
                      Some cb \<Rightarrow> [UserCallback cb ''home/lab'' [] 0] | None \<Rightarrow> [])"
    by blast
  then have r4: "handleMessage example_env ?lab ''home/lab'' [] 0 = (False, [])"
    by (simp only: lcb option.case)
  from handleMessage_classifies
         [of ?lab "''home/lab/other''" "[]" 0 example_env example_env, unfolded Let_def]
  have "handleMessage example_env ?lab ''home/lab/other'' [] 0
          = (case classify_spec (cmdTopic_m ?lab) (base_of (config_m ?lab)) ''home/lab/other'' of
               OwnCommand \<Rightarrow> (True, processCommand example_env ?lab [] 0)
             | OwnOther \<Rightarrow> (True, [])
             | Foreign \<Rightarrow> (False, case userCallback_m ?lab of
                                    Some cb \<Rightarrow> [UserCallback cb ''home/lab/other'' [] 0]
                                  | None \<Rightarrow> []))"
    by blast
  then have r5: "handleMessage example_env ?lab ''home/lab/other'' [] 0 = (True, [])"
    by (simp only: other topic_class.case)
  from handleMessage_classifies
         [of ?lab "''espmole/device/cmd''" "[]" 0 example_env example_env, unfolded Let_def]
  have "handleMessage example_env ?lab ''espmole/device/cmd'' [] 0
          = (case classify_spec (cmdTopic_m ?lab) (base_of (config_m ?lab)) ''espmole/device/cmd'' of
               OwnCommand \<Rightarrow> (True, processCommand example_env ?lab [] 0)
             | OwnOther \<Rightarrow> (True, [])
             | Foreign \<Rightarrow> (False, case userCallback_m ?lab of
                                    Some cb \<Rightarrow> [UserCallback cb ''espmole/device/cmd'' [] 0]
                                  | None \<Rightarrow> []))"
    by blast
  then have r6: "handleMessage example_env ?lab ''espmole/device/cmd'' [] 0 = (False, [])"
    by (simp only: outside topic_class.case lcb option.case)
  have h1: "''espmole'' \<noteq> cmdTopic_m ?st \<and> ''espmole'' = base_of (config_m ?st)"
    by code_simp
  have h2: "''espmole2/test123/cmd'' \<noteq> cmdTopic_m ?st
       \<and> prefix (base_of (config_m ?st)) ''espmole2/test123/cmd''
       \<and> c_at ''espmole2/test123/cmd'' (length (base_of (config_m ?st))) \<noteq> Some (CHR ''/'')"
    by code_simp
  have h3: "length (base_of (config_m ?st)) < TOPIC_MAX_LEN - 1"
    by code_simp
  have cb: "userCallback_m ?st = None"
    by code_simp
  from h1 handleMessage_classifies
         [of ?st "''espmole''" "[]" 0 example_env example_env, unfolded Let_def]
  have "handleMessage example_env ?st ''espmole'' [] 0
          = (False, case userCallback_m ?st of
                      Some cb \<Rightarrow> [UserCallback cb ''espmole'' [] 0] | None \<Rightarrow> [])"
    by blast
  then have r1: "handleMessage example_env ?st ''espmole'' [] 0 = (False, [])"
    by (simp only: cb option.case)
  from h2 handleMessage_classifies
         [of ?st "''espmole2/test123/cmd''" "[]" 0 example_env example_env, unfolded Let_def]
  have "handleMessage example_env ?st ''espmole2/test123/cmd'' [] 0
          = (False, case userCallback_m ?st of
                      Some cb \<Rightarrow> [UserCallback cb ''espmole2/test123/cmd'' [] 0] | None \<Rightarrow> [])"
    by blast
  then have r2: "handleMessage example_env ?st ''espmole2/test123/cmd'' [] 0 = (False, [])"
    by (simp only: cb option.case)
  from h3 handleMessage_classifies
         [of ?st "''espmole''" "[]" 0 example_env example_env, unfolded Let_def]
  have r3: "fst (handleMessage example_env (buildTopics example_env ?st)
                  (base_of (config_m ?st)) [] 0) = False"
    by blast
  from h1 h2 h3 r1 r2 r3 l1 r4 r5 r6 show ?thesis
    unfolding Let_def by blast
qed

section \<open>Topic namespace\<close>

lemma config_buildDeviceId: "config_m (buildDeviceId ev st) = config_m st"
  by (simp add: buildDeviceId_def split: option.splits)

lemma config_buildTopics: "config_m (buildTopics ev st) = config_m st"
  by (simp add: buildTopics_def Let_def config_buildDeviceId)

lemma deviceId_buildDeviceId:
  "deviceId_m (buildDeviceId ev st) =
     take (DEVICE_ID_MAX_LEN - 1)
       (case deviceId (config_m st) of Some x \<Rightarrow> x | None \<Rightarrow> mac_hex (macAddress ev))"
  by (simp add: buildDeviceId_def snprintf_def strncpy_term_def split: option.splits)

lemma length_mac_hex: "length (mac_hex m) = 12"
  by (cases m) (simp add: mac_hex_def fmt_02X_def)

lemma buildTopics_idem: "buildTopics ev (buildTopics ev st) = buildTopics ev st"
  by (simp add: buildTopics_def buildDeviceId_def Let_def split: option.splits)

lemma buildTopics_same_config:
  "config_m st2 = config_m st \<Longrightarrow>
     cmdTopic_m (buildTopics ev st2) = cmdTopic_m (buildTopics ev st)
   \<and> respTopic_m (buildTopics ev st2) = respTopic_m (buildTopics ev st)
   \<and> statusTopic_m (buildTopics ev st2) = statusTopic_m (buildTopics ev st)
   \<and> eventTopic_m (buildTopics ev st2) = eventTopic_m (buildTopics ev st)
   \<and> deviceId_m (buildTopics ev st2) = deviceId_m (buildTopics ev st)"
  by (simp add: buildTopics_def buildDeviceId_def Let_def split: option.splits)

text \<open>
  Claim C3. With the device identifier resolved as \<open>buildDeviceId\<close> does (the configured
  one, else the hardware address in upper-case hexadecimal), and within the length limits
  (the identifier fits its 32-byte buffer, the longest topic its 80-byte buffer),
  \<open>buildTopics\<close> produces exactly \<open>base/id/cmd\<close>, \<open>base/id/resp\<close>, \<open>base/id/status\<close>
  and \<open>base/id/event\<close>. Building again changes nothing, and any two adapters with the
  same configuration and the same device identity get the same four topics.
\<close>

theorem buildTopics_namespace:
  "(let b = base_of (config_m st);
        d = (case deviceId (config_m st) of Some x \<Rightarrow> x | None \<Rightarrow> mac_hex (macAddress ev));
        st' = buildTopics ev st
    in (length d < DEVICE_ID_MAX_LEN \<and> length b + length d + 8 < TOPIC_MAX_LEN \<longrightarrow>
          deviceId_m st' = d
          \<and> cmdTopic_m st' = b @ ''/'' @ d @ ''/cmd''
          \<and> respTopic_m st' = b @ ''/'' @ d @ ''/resp''
          \<and> statusTopic_m st' = b @ ''/'' @ d @ ''/status''
          \<and> eventTopic_m st' = b @ ''/'' @ d @ ''/event'')
       \<and> buildTopics ev st' = st'
       \<and> (config_m st2 = config_m st \<longrightarrow>
            cmdTopic_m (buildTopics ev st2) = cmdTopic_m st'
            \<and> respTopic_m (buildTopics ev st2) = respTopic_m st'
            \<and> statusTopic_m (buildTopics ev st2) = statusTopic_m st'
            \<and> eventTopic_m (buildTopics ev st2) = eventTopic_m st'))"
proof -
  let ?b = "base_of (config_m st)"
  let ?d = "case deviceId (config_m st) of Some x \<Rightarrow> x | None \<Rightarrow> mac_hex (macAddress ev)"
  have exact: "deviceId_m (buildTopics ev st) = ?d
          \<and> cmdTopic_m (buildTopics ev st) = ?b @ ''/'' @ ?d @ ''/cmd''
          \<and> respTopic_m (buildTopics ev st) = ?b @ ''/'' @ ?d @ ''/resp''
          \<and> statusTopic_m (buildTopics ev st) = ?b @ ''/'' @ ?d @ ''/status''
          \<and> eventTopic_m (buildTopics ev st) = ?b @ ''/'' @ ?d @ ''/event''"
    if "length ?d < DEVICE_ID_MAX_LEN" "length ?b + length ?d + 8 < TOPIC_MAX_LEN"
  proof -
    from that(1) have d: "deviceId_m (buildDeviceId ev st) = ?d"
      by (simp add: deviceId_buildDeviceId)
    from that(2) show ?thesis
      by (simp add: buildTopics_def Let_def d config_buildDeviceId snprintf_def)
  qed
  show ?thesis
    unfolding Let_def
    apply (intro conjI impI)
    subgoal using exact by blast
    subgoal using exact by blast
    subgoal using exact by blast
    subgoal using exact by blast
    subgoal using exact by blast
    subgoal by (rule buildTopics_idem)
    subgoal using buildTopics_same_config by blast
    subgoal using buildTopics_same_config by blast
    subgoal using buildTopics_same_config by blast
    subgoal using buildTopics_same_config by blast
    done
qed

theorem buildTopics_namespace_witness:
  "(let st = MqttTransport_standalone None example_config;
        st' = buildTopics example_env st;
        mt = MqttTransport_integration None;
        lab = MqttTransport_standalone None (example_config\<lparr>baseTopic := Some ''home/lab''\<rparr>);
        nb = MqttTransport_standalone None (example_config\<lparr>baseTopic := None\<rparr>)
    in base_of (config_m st) = ''espmole'' \<and> deviceId (config_m st) = Some ''test123''
       \<and> deviceId_m st' = ''test123''
       \<and> cmdTopic_m st' = ''espmole/test123/cmd''
       \<and> respTopic_m st' = ''espmole/test123/resp''
       \<and> statusTopic_m st' = ''espmole/test123/status''
       \<and> eventTopic_m st' = ''espmole/test123/event''
       \<and> buildTopics example_env st' = st'
       \<and> config_m mt = config_m (buildTopics example_env mt)
       \<and> cmdTopic_m (buildTopics example_env (buildTopics example_env mt))
           = cmdTopic_m (buildTopics example_env mt)
       \<and> cmdTopic_m (buildTopics example_env mt) = ''espmole/246F28AB0CD1/cmd''
       \<and> base_of (config_m lab) = ''home/lab''
       \<and> cmdTopic_m (buildTopics example_env lab) = ''home/lab/test123/cmd''
       \<and> respTopic_m (buildTopics example_env lab) = ''home/lab/test123/resp''
       \<and> statusTopic_m (buildTopics example_env lab) = ''home/lab/test123/status''
       \<and> eventTopic_m (buildTopics example_env lab) = ''home/lab/test123/event''
       \<and> baseTopic (config_m nb) = None
       \<and> cmdTopic_m (buildTopics example_env nb) = ''espmole/test123/cmd'')"
proof -
  let ?st = "MqttTransport_standalone None example_config"
  let ?lab = "MqttTransport_standalone None (example_config\<lparr>baseTopic := Some ''home/lab''\<rparr>)"
  let ?nb = "MqttTransport_standalone None (example_config\<lparr>baseTopic := None\<rparr>)"
  let ?dl = "case deviceId (config_m ?lab) of
               Some x \<Rightarrow> x | None \<Rightarrow> mac_hex (macAddress example_env)"
  let ?dn = "case deviceId (config_m ?nb) of
               Some x \<Rightarrow> x | None \<Rightarrow> mac_hex (macAddress example_env)"
  have bl: "base_of (config_m ?lab) = ''home/lab''" and dl: "?dl = ''test123''"
    and bn: "base_of (config_m ?nb) = ''espmole''" and dn: "?dn = ''test123''"
    and nb: "baseTopic (config_m ?nb) = None"
    by code_simp+
  have fitsl: "length ?dl < DEVICE_ID_MAX_LEN
                \<and> length (base_of (config_m ?lab)) + length ?dl + 8 < TOPIC_MAX_LEN"
    and fitsn: "length ?dn < DEVICE_ID_MAX_LEN
                \<and> length (base_of (config_m ?nb)) + length ?dn + 8 < TOPIC_MAX_LEN"
    by code_simp+
  from fitsl buildTopics_namespace [of ?lab example_env ?lab, unfolded Let_def] have
     "cmdTopic_m (buildTopics example_env ?lab) = base_of (config_m ?lab) @ ''/'' @ ?dl @ ''/cmd''
      \<and> respTopic_m (buildTopics example_env ?lab) = base_of (config_m ?lab) @ ''/'' @ ?dl @ ''/resp''
      \<and> statusTopic_m (buildTopics example_env ?lab) = base_of (config_m ?lab) @ ''/'' @ ?dl @ ''/status''
      \<and> eventTopic_m (buildTopics example_env ?lab) = base_of (config_m ?lab) @ ''/'' @ ?dl @ ''/event''"
    by blast
  then have labtopics:
     "cmdTopic_m (buildTopics example_env ?lab) = ''home/lab/test123/cmd''
      \<and> respTopic_m (buildTopics example_env ?lab) = ''home/lab/test123/resp''
      \<and> statusTopic_m (buildTopics example_env ?lab) = ''home/lab/test123/status''
      \<and> eventTopic_m (buildTopics example_env ?lab) = ''home/lab/test123/event''"
    unfolding dl bl by simp
  from fitsn buildTopics_namespace [of ?nb example_env ?nb, unfolded Let_def] have
     "cmdTopic_m (buildTopics example_env ?nb) = base_of (config_m ?nb) @ ''/'' @ ?dn @ ''/cmd''"
    by blast
  then have nbtopic: "cmdTopic_m (buildTopics example_env ?nb) = ''espmole/test123/cmd''"
    unfolding dn bn by simp
  let ?mt = "MqttTransport_integration None"
  let ?d = "case deviceId (config_m ?st) of
              Some x \<Rightarrow> x | None \<Rightarrow> mac_hex (macAddress example_env)"
  have b: "base_of (config_m ?st) = ''espmole''"
    and i: "deviceId (config_m ?st) = Some ''test123''"
    by code_simp+
  have d: "?d = ''test123''"
    by (simp only: i option.case)
  have fits: "length ?d < DEVICE_ID_MAX_LEN
                \<and> length (base_of (config_m ?st)) + length ?d + 8 < TOPIC_MAX_LEN"
    by code_simp
  note t = buildTopics_namespace [of ?st example_env ?st, unfolded Let_def]
  from fits t have
     "deviceId_m (buildTopics example_env ?st) = ?d
      \<and> cmdTopic_m (buildTopics example_env ?st) = base_of (config_m ?st) @ ''/'' @ ?d @ ''/cmd''
      \<and> respTopic_m (buildTopics example_env ?st) = base_of (config_m ?st) @ ''/'' @ ?d @ ''/resp''
      \<and> statusTopic_m (buildTopics example_env ?st) = base_of (config_m ?st) @ ''/'' @ ?d @ ''/status''
      \<and> eventTopic_m (buildTopics example_env ?st) = base_of (config_m ?st) @ ''/'' @ ?d @ ''/event''"
    by blast
  then have topics:
     "deviceId_m (buildTopics example_env ?st) = ''test123''
      \<and> cmdTopic_m (buildTopics example_env ?st) = ''espmole/test123/cmd''
      \<and> respTopic_m (buildTopics example_env ?st) = ''espmole/test123/resp''
      \<and> statusTopic_m (buildTopics example_env ?st) = ''espmole/test123/status''
      \<and> eventTopic_m (buildTopics example_env ?st) = ''espmole/test123/event''"
    unfolding d b by simp
  from t have idem: "buildTopics example_env (buildTopics example_env ?st)
                       = buildTopics example_env ?st"
    by blast
  have same: "config_m ?mt = config_m (buildTopics example_env ?mt)"
    by code_simp
  note t2 = buildTopics_namespace [of "buildTopics example_env ?mt" example_env ?mt,
              unfolded Let_def]
  from same [symmetric] t2
  have again: "cmdTopic_m (buildTopics example_env (buildTopics example_env ?mt))
                 = cmdTopic_m (buildTopics example_env ?mt)"
    by (simp add: buildTopics_idem)
  have mac: "cmdTopic_m (buildTopics example_env ?mt) = ''espmole/246F28AB0CD1/cmd''"
    by code_simp
  from b i topics idem same again mac bl labtopics nb nbtopic show ?thesis
    unfolding Let_def by blast
qed

section \<open>Foreign and own-namespace traffic\<close>

text \<open>
  Claim C4. On a topic the classification calls \<open>Foreign\<close>, \<open>handleMessage\<close> makes one
  call, to the user callback if one is registered, with the topic, the payload and the
  length it was given, makes no publish call, and answers \<open>False\<close>. On a topic classed
  \<open>OwnOther\<close> it makes no call at all and answers \<open>True\<close>.
\<close>

theorem handleMessage_foreign_no_publish:
  "(classify_spec (cmdTopic_m st) (base_of (config_m st)) topic = Foreign \<longrightarrow>
      handleMessage ev st topic payload len =
        (False, case userCallback_m st of
                  Some cb \<Rightarrow> [UserCallback cb topic payload len]
                | None \<Rightarrow> [])
      \<and> filter is_publish (snd (handleMessage ev st topic payload len)) = [])
   \<and> (classify_spec (cmdTopic_m st) (base_of (config_m st)) topic = OwnOther \<longrightarrow>
      handleMessage ev st topic payload len = (True, []))"
  by (simp add: handleMessage_by_class split: option.splits)

theorem handleMessage_foreign_no_publish_witness:
  "(let ev = example_env\<lparr>asyncConnected := True\<rparr>;
        st = setUserCallback
               (fst (begin_transport ev
                  (MqttTransport_standalone (Some echo_dispatcher) example_config)))
               (Some 42)
    in classify_spec (cmdTopic_m st) (base_of (config_m st)) ''home/sensor/temp'' = Foreign
       \<and> handleMessage ev st ''home/sensor/temp'' [50, 49] 2
           = (False, [UserCallback 42 ''home/sensor/temp'' [50, 49] 2])
       \<and> filter is_publish (snd (handleMessage ev st ''home/sensor/temp'' [50, 49] 2)) = []
       \<and> classify_spec (cmdTopic_m st) (base_of (config_m st)) ''espmole/device/cmd'' = OwnOther
       \<and> handleMessage ev st ''espmole/device/cmd'' [50, 49] 2 = (True, []))"
proof -
  let ?ev = "example_env\<lparr>asyncConnected := True\<rparr>"
  let ?st = "setUserCallback
               (fst (begin_transport ?ev
                  (MqttTransport_standalone (Some echo_dispatcher) example_config)))
               (Some 42)"
  have f: "classify_spec (cmdTopic_m ?st) (base_of (config_m ?st)) ''home/sensor/temp'' = Foreign"
    and oo: "classify_spec (cmdTopic_m ?st) (base_of (config_m ?st)) ''espmole/device/cmd'' = OwnOther"
    and cb: "userCallback_m ?st = Some 42"
    by code_simp+
  note t1 = handleMessage_foreign_no_publish [of ?st "''home/sensor/temp''" ?ev "[50, 49]" 2]
  from f t1 have "handleMessage ?ev ?st ''home/sensor/temp'' [50, 49] 2
           = (False, case userCallback_m ?st of
                       Some cb \<Rightarrow> [UserCallback cb ''home/sensor/temp'' [50, 49] 2]
                     | None \<Rightarrow> [])"
    by blast
  then have 1: "handleMessage ?ev ?st ''home/sensor/temp'' [50, 49] 2
           = (False, [UserCallback 42 ''home/sensor/temp'' [50, 49] 2])"
    by (simp only: cb option.case)
  from f t1 have 2:
    "filter is_publish (snd (handleMessage ?ev ?st ''home/sensor/temp'' [50, 49] 2)) = []"
    by blast
  from oo handleMessage_foreign_no_publish [of ?st "''espmole/device/cmd''" ?ev "[50, 49]" 2]
  have 3: "handleMessage ?ev ?st ''espmole/device/cmd'' [50, 49] 2 = (True, [])"
    by blast
  from f oo 1 2 3 show ?thesis
    unfolding Let_def by blast
qed

section \<open>The command bridge\<close>

lemma mqttPublish_effects:
  "snd (mqttPublish ev st topic payload len q retain) =
     (if asyncClient_m st \<noteq> None \<and> asyncConnected ev
      then [AsyncPublish (the (asyncClient_m st)) topic q retain payload len]
      else if hasPubSubClient ev \<and> pubSubClient_m st \<noteq> None \<and> pubSubConnected ev
      then [PubSubPublish (the (pubSubClient_m st)) topic payload len retain]
      else [])"
  by (simp add: mqttPublish_def)

text \<open>
  Claim C2, as stated, fails: it promises the publish whenever the dispatcher answers
  with a non-empty response, and \<open>mqttPublish\<close> publishes only through a client that is
  attached and reports connected. Here the adapter owns a client that is not connected;
  the command arrives on the command topic, the dispatcher answers with one byte, and
  the only call made is the one to the dispatcher.
\<close>

theorem handleMessage_command_counterexample:
  "(let st = fst (begin_transport example_env
                    (MqttTransport_standalone (Some echo_dispatcher) example_config))
    in cmdTopic_m st = ''espmole/test123/cmd''
       \<and> asyncClient_m st = Some 1
       \<and> asyncConnected example_env = False
       \<and> echo_dispatcher PEER_MQTT [7] 1 RESPONSE_BUFFER_SIZE = [7]
       \<and> handleMessage example_env st ''espmole/test123/cmd'' [7] 1
           = (True, [Ingest PEER_MQTT [7] 1 RESPONSE_BUFFER_SIZE])
       \<and> filter is_publish
            (snd (handleMessage example_env st ''espmole/test123/cmd'' [7] 1)) = [])"
  by code_simp

text \<open>
  Claim C2, amended. For every message on the command topic \<open>handleMessage\<close> answers
  \<open>True\<close>; with no dispatcher it makes no call; with a dispatcher it hands it the payload
  and length with the capacity of the 256-byte response buffer, and then: if the
  response is empty, nothing else happens; if it is non-empty and the AsyncMqttClient is
  attached and connected, exactly that response is published once to the response topic
  at the configured QoS with retain false; if it is non-empty and the publish goes through
  a connected PubSubClient, exactly that response is published once to the response topic
  with retain false (that call has no QoS argument); and if no attached client is
  connected, nothing is published.
\<close>

theorem handleMessage_command:
  "strcmp topic (cmdTopic_m st) = 0 \<Longrightarrow>
   (let r = handleMessage ev st topic payload len
    in fst r = True
       \<and> (dispatcher_m st = None \<longrightarrow> snd r = [])
       \<and> (\<forall>d. dispatcher_m st = Some d \<longrightarrow>
            (let response = d PEER_MQTT payload len RESPONSE_BUFFER_SIZE;
                 ingest = Ingest PEER_MQTT payload len RESPONSE_BUFFER_SIZE
             in (response = [] \<longrightarrow> snd r = [ingest])
              \<and> (response \<noteq> [] \<and> asyncClient_m st \<noteq> None \<and> asyncConnected ev \<longrightarrow>
                    snd r = [ingest, AsyncPublish (the (asyncClient_m st)) (respTopic_m st)
                                       (qos (config_m st)) False response (length response)])
              \<and> (response \<noteq> [] \<and> \<not> (asyncClient_m st \<noteq> None \<and> asyncConnected ev)
                    \<and> hasPubSubClient ev \<and> pubSubClient_m st \<noteq> None \<and> pubSubConnected ev \<longrightarrow>
                    snd r = [ingest, PubSubPublish (the (pubSubClient_m st)) (respTopic_m st)
                                       response (length response) False])
              \<and> (\<not> (asyncClient_m st \<noteq> None \<and> asyncConnected ev)
                    \<and> \<not> (hasPubSubClient ev \<and> pubSubClient_m st \<noteq> None \<and> pubSubConnected ev) \<longrightarrow>
                    snd r = [ingest]))))"
  by (simp add: handleMessage_def processCommand_def Let_def mqttPublish_effects)

theorem handleMessage_command_witness:
  "(let ev = example_env\<lparr>asyncConnected := True\<rparr>;
        st = fst (begin_transport ev
                    (MqttTransport_standalone (Some echo_dispatcher) example_config))
    in strcmp ''espmole/test123/cmd'' (cmdTopic_m st) = 0
       \<and> dispatcher_m st = Some echo_dispatcher
       \<and> asyncClient_m st \<noteq> None \<and> asyncConnected ev
       \<and> echo_dispatcher PEER_MQTT [7] 1 RESPONSE_BUFFER_SIZE \<noteq> []
       \<and> snd (handleMessage ev st ''espmole/test123/cmd'' [7] 1)
           = [Ingest PEER_MQTT [7] 1 RESPONSE_BUFFER_SIZE,
              AsyncPublish 1 ''espmole/test123/resp'' 0 False [7] 1]
       \<and> fst (handleMessage ev st ''espmole/test123/cmd'' [7] 1) = True
       \<and> echo_dispatcher PEER_MQTT [] 0 RESPONSE_BUFFER_SIZE = []
       \<and> snd (handleMessage ev st ''espmole/test123/cmd'' [] 0)
           = [Ingest PEER_MQTT [] 0 RESPONSE_BUFFER_SIZE])"
proof -
  let ?ev = "example_env\<lparr>asyncConnected := True\<rparr>"
  let ?st = "fst (begin_transport ?ev
                    (MqttTransport_standalone (Some echo_dispatcher) example_config))"
  have cmd: "strcmp ''espmole/test123/cmd'' (cmdTopic_m ?st) = 0"
    by code_simp
  have d: "dispatcher_m ?st = Some echo_dispatcher"
    by (simp add: begin_transport_def Let_def buildTopics_def buildDeviceId_def
          MqttTransport_standalone_def split: option.splits)
  have conn: "asyncClient_m ?st \<noteq> None \<and> asyncConnected ?ev"
    by code_simp
  have resp: "echo_dispatcher PEER_MQTT [7] 1 RESPONSE_BUFFER_SIZE \<noteq> []"
    and none: "echo_dispatcher PEER_MQTT [] 0 RESPONSE_BUFFER_SIZE = []"
    by code_simp+
  have vals: "the (asyncClient_m ?st) = 1" "respTopic_m ?st = ''espmole/test123/resp''"
      "qos (config_m ?st) = 0" "echo_dispatcher PEER_MQTT [7] 1 RESPONSE_BUFFER_SIZE = [7]"
    by code_simp+
  note t1 = handleMessage_command [OF cmd, of ?ev "[7]" 1, unfolded Let_def]
  from t1 have f: "fst (handleMessage ?ev ?st ''espmole/test123/cmd'' [7] 1) = True"
    by blast
  from t1 d resp conn
  have "snd (handleMessage ?ev ?st ''espmole/test123/cmd'' [7] 1)
          = [Ingest PEER_MQTT [7] 1 RESPONSE_BUFFER_SIZE,
             AsyncPublish (the (asyncClient_m ?st)) (respTopic_m ?st) (qos (config_m ?st)) False
               (echo_dispatcher PEER_MQTT [7] 1 RESPONSE_BUFFER_SIZE)
               (length (echo_dispatcher PEER_MQTT [7] 1 RESPONSE_BUFFER_SIZE))]"
    by blast
  then have s1: "snd (handleMessage ?ev ?st ''espmole/test123/cmd'' [7] 1)
          = [Ingest PEER_MQTT [7] 1 RESPONSE_BUFFER_SIZE,
             AsyncPublish 1 ''espmole/test123/resp'' 0 False [7] 1]"
    unfolding vals by simp
  from handleMessage_command [OF cmd, of ?ev "[]" 0, unfolded Let_def] d none
  have s2: "snd (handleMessage ?ev ?st ''espmole/test123/cmd'' [] 0)
          = [Ingest PEER_MQTT [] 0 RESPONSE_BUFFER_SIZE]"
    by blast
  from cmd d conn resp none f s1 s2 show ?thesis
    unfolding Let_def by blast
qed

section \<open>Fragmented messages\<close>

text \<open>
  Claim C6. A chunk whose start offset is not 0, or whose length is not the advertised
  total, is dropped: \<open>onAsyncMessage\<close> makes no call at all, so the message reaches
  neither \<open>handleMessage\<close> nor the dispatcher, nothing is published, and nothing is
  reported. (The handler has no result and leaves the adapter as it was.)
\<close>

theorem onAsyncMessage_drops_fragments:
  "index \<noteq> 0 \<or> len \<noteq> total_len \<Longrightarrow>
     onAsyncMessage ev st topic payload len index total_len = []"
  by (auto simp add: onAsyncMessage_def)

theorem onAsyncMessage_drops_fragments_witness:
  "(let ev = example_env\<lparr>asyncConnected := True\<rparr>;
        st = fst (begin_transport ev
                    (MqttTransport_standalone (Some echo_dispatcher) example_config))
    in onAsyncMessage ev st ''espmole/test123/cmd'' [7, 8] 2 0 5 = []
       \<and> onAsyncMessage ev st ''espmole/test123/cmd'' [7, 8] 2 2 2 = []
       \<and> onAsyncMessage ev st ''espmole/test123/cmd'' [7, 8] 2 0 2
           = [Ingest PEER_MQTT [7, 8] 2 RESPONSE_BUFFER_SIZE,
              AsyncPublish 1 ''espmole/test123/resp'' 0 False [7, 8] 2])"
proof -
  let ?ev = "example_env\<lparr>asyncConnected := True\<rparr>"
  let ?st = "fst (begin_transport ?ev
                    (MqttTransport_standalone (Some echo_dispatcher) example_config))"
  have a: "(0::nat) \<noteq> 0 \<or> (2::nat) \<noteq> 5" and b: "(2::nat) \<noteq> 0 \<or> (2::nat) \<noteq> 2"
    by simp_all
  have whole: "onAsyncMessage ?ev ?st ''espmole/test123/cmd'' [7, 8] 2 0 2
           = [Ingest PEER_MQTT [7, 8] 2 RESPONSE_BUFFER_SIZE,
              AsyncPublish 1 ''espmole/test123/resp'' 0 False [7, 8] 2]"
    by code_simp
  from whole
    onAsyncMessage_drops_fragments [OF a, of ?ev ?st "''espmole/test123/cmd''" "[7, 8]"]
    onAsyncMessage_drops_fragments [OF b, of ?ev ?st "''espmole/test123/cmd''" "[7, 8]"]
  show ?thesis unfolding Let_def by blast
qed

section \<open>Reconnection\<close>

lemma poll_effects:
  "snd (poll ev st) =
     (if standaloneMode_m st \<and> asyncClient_m st \<noteq> None \<and> \<not> asyncConnected ev
         \<and> millis ev - lastReconnectAttempt_m st \<ge> reconnectInterval (config_m st)
      then [Connect (the (asyncClient_m st))] else [])"
  by (simp add: poll_def Let_def)

lemma poll_last_attempt:
  "lastReconnectAttempt_m (fst (poll ev st)) =
     (if snd (poll ev st) = [] then lastReconnectAttempt_m st else millis ev)"
  by (simp add: poll_def Let_def)

lemma poll_frame:
  "config_m (fst (poll ev st)) = config_m st
   \<and> standaloneMode_m (fst (poll ev st)) = standaloneMode_m st
   \<and> ownsClient_m (fst (poll ev st)) = ownsClient_m st
   \<and> asyncClient_m (fst (poll ev st)) = asyncClient_m st
   \<and> pubSubClient_m (fst (poll ev st)) = pubSubClient_m st"
  by (simp add: poll_def Let_def)

text \<open>
  Claim C5. Take two consecutive calls of \<open>poll\<close>, the second less than the reconnect
  interval after the first by the 32-bit clock (the difference of the two readings,
  modulo \<open>2^32\<close>): together they call \<open>connect\<close> at most once. A call of \<open>poll\<close> that
  does attempt makes exactly one \<open>connect\<close> call, does so only while disconnected and
  with the interval elapsed since the last attempt, and records the clock as the new last
  attempt; and whenever less than the interval has elapsed since the last attempt,
  \<open>poll\<close> attempts nothing.
\<close>

theorem poll_reconnect_spacing:
  "(millis ev2 - millis ev1 < reconnectInterval (config_m st) \<longrightarrow>
      connect_attempts (snd (poll ev1 st))
        + connect_attempts (snd (poll ev2 (fst (poll ev1 st)))) \<le> 1)
   \<and> (snd (poll ev1 st) \<noteq> [] \<longrightarrow>
        snd (poll ev1 st) = [Connect (the (asyncClient_m st))]
        \<and> \<not> asyncConnected ev1
        \<and> reconnectInterval (config_m st) \<le> millis ev1 - lastReconnectAttempt_m st
        \<and> lastReconnectAttempt_m (fst (poll ev1 st)) = millis ev1)
   \<and> (millis ev2 - lastReconnectAttempt_m st < reconnectInterval (config_m st) \<longrightarrow>
        snd (poll ev2 st) = [])"
proof (intro conjI impI)
  assume near: "millis ev2 - millis ev1 < reconnectInterval (config_m st)"
  show "connect_attempts (snd (poll ev1 st))
          + connect_attempts (snd (poll ev2 (fst (poll ev1 st)))) \<le> 1"
  proof (cases "snd (poll ev1 st) = []")
    case True
    then show ?thesis
      by (simp add: connect_attempts_def poll_effects [of ev2])
  next
    case False
    then have "lastReconnectAttempt_m (fst (poll ev1 st)) = millis ev1"
      by (simp add: poll_last_attempt)
    with near have "snd (poll ev2 (fst (poll ev1 st))) = []"
      by (simp add: poll_effects [of ev2] poll_frame not_le)
    then show ?thesis
      by (simp add: connect_attempts_def poll_effects [of ev1])
  qed
next
  assume "snd (poll ev1 st) \<noteq> []"
  then show "snd (poll ev1 st) = [Connect (the (asyncClient_m st))]"
    and "\<not> asyncConnected ev1"
    and "reconnectInterval (config_m st) \<le> millis ev1 - lastReconnectAttempt_m st"
    and "lastReconnectAttempt_m (fst (poll ev1 st)) = millis ev1"
    by (simp_all add: poll_effects poll_last_attempt split: if_splits)
next
  assume "millis ev2 - lastReconnectAttempt_m st < reconnectInterval (config_m st)"
  then show "snd (poll ev2 st) = []"
    by (simp add: poll_effects not_le)
qed

theorem poll_reconnect_spacing_witness:
  "(let ev1 = example_env\<lparr>millis := 0xFFFFFF00\<rparr>;
        ev2 = example_env\<lparr>millis := 0x10\<rparr>;
        st = fst (begin_transport ev1 (MqttTransport_standalone None example_config))
    in standaloneMode_m st \<and> asyncConnected ev1 = False \<and> asyncConnected ev2 = False
       \<and> millis ev2 - millis ev1 = 0x110
       \<and> millis ev2 - millis ev1 < reconnectInterval (config_m st)
       \<and> snd (poll ev1 st) = [Connect 1]
       \<and> lastReconnectAttempt_m (fst (poll ev1 st)) = millis ev1
       \<and> millis ev2 - lastReconnectAttempt_m (fst (poll ev1 st))
            < reconnectInterval (config_m (fst (poll ev1 st)))
       \<and> snd (poll ev2 (fst (poll ev1 st))) = []
       \<and> connect_attempts (snd (poll ev1 st))
            + connect_attempts (snd (poll ev2 (fst (poll ev1 st)))) \<le> 1)"
proof -
  let ?ev1 = "example_env\<lparr>millis := 0xFFFFFF00\<rparr>"
  let ?ev2 = "example_env\<lparr>millis := 0x10\<rparr>"
  let ?st = "fst (begin_transport ?ev1 (MqttTransport_standalone None example_config))"
  have setting: "standaloneMode_m ?st" "asyncConnected ?ev1 = False"
      "asyncConnected ?ev2 = False" "millis ?ev2 - millis ?ev1 = 0x110"
    by code_simp+
  have near: "millis ?ev2 - millis ?ev1 < reconnectInterval (config_m ?st)"
    by code_simp
  have first: "snd (poll ?ev1 ?st) = [Connect 1]"
    by code_simp
  then have attempted: "snd (poll ?ev1 ?st) \<noteq> []"
    by simp
  have near': "millis ?ev2 - lastReconnectAttempt_m (fst (poll ?ev1 ?st))
                 < reconnectInterval (config_m (fst (poll ?ev1 ?st)))"
    by code_simp
  note t = poll_reconnect_spacing [of ?ev2 ?ev1 ?st]
  from near t have total: "connect_attempts (snd (poll ?ev1 ?st))
            + connect_attempts (snd (poll ?ev2 (fst (poll ?ev1 ?st)))) \<le> 1"
    by blast
  from attempted t have last: "lastReconnectAttempt_m (fst (poll ?ev1 ?st)) = millis ?ev1"
    by blast
  from near' poll_reconnect_spacing [of ?ev2 ?ev1 "fst (poll ?ev1 ?st)"]
  have second: "snd (poll ?ev2 (fst (poll ?ev1 ?st))) = []"
    by blast
  from setting near first last near' second total show ?thesis
    unfolding Let_def by blast
qed

section \<open>Operating mode\<close>

lemma run_activations_snoc:
  "run_activations st (calls @ [c]) = activate (run_activations st calls) c"
  by (simp add: run_activations_def)

lemma config_activate: "config_m (activate st c) = config_m st"
proof (cases c)
  case (Pair ev a)
  then show ?thesis
    by (cases a)
       (simp_all add: begin_transport_def attachTo_Async_def attachTo_PubSub_def Let_def
          config_buildTopics split: option.splits)
qed

lemma config_run_activations: "config_m (run_activations st calls) = config_m st"
  by (induction calls rule: rev_induct)
     (simp_all add: run_activations_def config_activate)

lemma flags_buildTopics:
  "standaloneMode_m (buildTopics ev st) = standaloneMode_m st
   \<and> ownsClient_m (buildTopics ev st) = ownsClient_m st
   \<and> asyncClient_m (buildTopics ev st) = asyncClient_m st
   \<and> pubSubClient_m (buildTopics ev st) = pubSubClient_m st
   \<and> wasConnected_m (buildTopics ev st) = wasConnected_m st
   \<and> lastReconnectAttempt_m (buildTopics ev st) = lastReconnectAttempt_m st"
  by (simp add: buildTopics_def buildDeviceId_def Let_def split: option.splits)

lemma begin_transport_flags:
  "standaloneMode_m (fst (begin_transport ev st)) = True
   \<and> ownsClient_m (fst (begin_transport ev st)) = (broker (config_m st) \<noteq> None \<or> ownsClient_m st)"
  by (simp add: begin_transport_def Let_def flags_buildTopics config_buildTopics
        split: option.splits)

lemma attachTo_Async_flags:
  "standaloneMode_m (fst (attachTo_Async ev st c)) = False
   \<and> ownsClient_m (fst (attachTo_Async ev st c)) = False
   \<and> asyncClient_m (fst (attachTo_Async ev st c)) = Some c"
  by (simp add: attachTo_Async_def Let_def flags_buildTopics)

lemma attachTo_PubSub_flags:
  "hasPubSubClient ev \<Longrightarrow>
     standaloneMode_m (fst (attachTo_PubSub ev st c)) = False
   \<and> ownsClient_m (fst (attachTo_PubSub ev st c)) = False
   \<and> pubSubClient_m (fst (attachTo_PubSub ev st c)) = Some c"
  by (simp add: attachTo_PubSub_def Let_def flags_buildTopics)

text \<open>
  Claim C7, as stated, fails: \<open>begin\<close> sets the mode flag and \<open>attachTo\<close> clears it
  whatever it was, so a later activation of the other kind switches the mode. An adapter
  constructed for standalone mode and begun is standalone and owns its client; after
  \<open>attachTo\<close> it is in integration mode and owns none. An adapter constructed for
  integration mode and attached is in integration mode; after \<open>begin\<close> it is standalone.
\<close>

theorem mode_switch_counterexample:
  "(let st = MqttTransport_standalone None example_config;
        a = run_activations st [(example_env, Begin)];
        b = run_activations st [(example_env, Begin), (example_env, AttachAsync 2)];
        mt = MqttTransport_integration None;
        c = run_activations mt [(example_env, AttachAsync 2)];
        d = run_activations mt [(example_env, AttachAsync 2), (example_env, Begin)]
    in standaloneMode_m a = True \<and> ownsClient_m a = True \<and> asyncClient_m a = Some 1
       \<and> standaloneMode_m b = False \<and> ownsClient_m b = False \<and> asyncClient_m b = Some 2
       \<and> standaloneMode_m c = False
       \<and> standaloneMode_m d = True)"
  by code_simp

text \<open>
  Claim C7, amended. The mode is the one the last activation chose, and only an
  activation changes it: after any sequence of \<open>begin\<close> and \<open>attachTo\<close> calls that ends
  with \<open>begin\<close> the adapter is in standalone mode (and owns a client if a broker is
  configured, else ownership is as before); after one that ends with \<open>attachTo\<close> it is in
  integration mode and owns no client (\<open>attachTo\<close> with a PubSubClient does nothing at all
  when PubSubClient support is not compiled in); and \<open>poll\<close> and the connect and
  disconnect events leave the mode flag and the ownership flag as they were.
\<close>

theorem mode_set_by_last_activation:
  "standaloneMode_m (run_activations st (calls @ [(ev, Begin)])) = True
   \<and> ownsClient_m (run_activations st (calls @ [(ev, Begin)]))
       = (broker (config_m st) \<noteq> None \<or> ownsClient_m (run_activations st calls))
   \<and> standaloneMode_m (run_activations st (calls @ [(ev, AttachAsync c)])) = False
   \<and> ownsClient_m (run_activations st (calls @ [(ev, AttachAsync c)])) = False
   \<and> (hasPubSubClient ev \<longrightarrow>
        standaloneMode_m (run_activations st (calls @ [(ev, AttachPubSub c)])) = False
        \<and> ownsClient_m (run_activations st (calls @ [(ev, AttachPubSub c)])) = False)
   \<and> (\<not> hasPubSubClient ev \<longrightarrow>
        run_activations st (calls @ [(ev, AttachPubSub c)]) = run_activations st calls)
   \<and> standaloneMode_m (fst (poll ev st)) = standaloneMode_m st
   \<and> ownsClient_m (fst (poll ev st)) = ownsClient_m st
   \<and> standaloneMode_m (fst (onAsyncConnect ev st)) = standaloneMode_m st
   \<and> ownsClient_m (fst (onAsyncConnect ev st)) = ownsClient_m st
   \<and> standaloneMode_m (onAsyncDisconnect st) = standaloneMode_m st
   \<and> ownsClient_m (onAsyncDisconnect st) = ownsClient_m st"
  apply (intro conjI impI)
  subgoal by (simp add: run_activations_snoc begin_transport_flags)
  subgoal by (simp add: run_activations_snoc begin_transport_flags config_run_activations)
  subgoal by (simp add: run_activations_snoc attachTo_Async_flags)
  subgoal by (simp add: run_activations_snoc attachTo_Async_flags)
  subgoal by (simp add: run_activations_snoc attachTo_PubSub_flags)
  subgoal by (simp add: run_activations_snoc attachTo_PubSub_flags)
  subgoal by (simp add: run_activations_snoc attachTo_PubSub_def)
  subgoal by (simp add: poll_frame)
  subgoal by (simp add: poll_frame)
  subgoal by (simp add: onAsyncConnect_def Let_def)
  subgoal by (simp add: onAsyncConnect_def Let_def)
  subgoal by (simp add: onAsyncDisconnect_def)
  subgoal by (simp add: onAsyncDisconnect_def)
  done

theorem mode_set_by_last_activation_witness:
  "(let ev = example_env\<lparr>hasPubSubClient := True\<rparr>;
        st = MqttTransport_standalone None example_config
    in hasPubSubClient ev
       \<and> standaloneMode_m (run_activations st ([(ev, Begin)] @ [(ev, AttachPubSub 3)])) = False
       \<and> ownsClient_m (run_activations st ([(ev, Begin)] @ [(ev, AttachPubSub 3)])) = False
       \<and> \<not> hasPubSubClient example_env
       \<and> run_activations st ([(example_env, Begin)] @ [(example_env, AttachPubSub 3)])
           = run_activations st [(example_env, Begin)]
       \<and> standaloneMode_m (run_activations st ([] @ [(example_env, Begin)])) = True)"
proof -
  let ?ev = "example_env\<lparr>hasPubSubClient := True\<rparr>"
  let ?st = "MqttTransport_standalone None example_config"
  have h: "hasPubSubClient ?ev" and h': "\<not> hasPubSubClient example_env"
    by code_simp+
  from h mode_set_by_last_activation [of ?st "[(?ev, Begin)]" ?ev 3]
  have 1: "standaloneMode_m (run_activations ?st ([(?ev, Begin)] @ [(?ev, AttachPubSub 3)])) = False
        \<and> ownsClient_m (run_activations ?st ([(?ev, Begin)] @ [(?ev, AttachPubSub 3)])) = False"
    by blast
  from h' mode_set_by_last_activation [of ?st "[(example_env, Begin)]" example_env 3]
  have 2: "run_activations ?st ([(example_env, Begin)] @ [(example_env, AttachPubSub 3)])
           = run_activations ?st ([(example_env, Begin)])"
    by blast
  from mode_set_by_last_activation [of ?st "[]" example_env 3]
  have 3: "standaloneMode_m (run_activations ?st ([] @ [(example_env, Begin)])) = True"
    by blast
  from h h' 1 2 3 show ?thesis
    unfolding Let_def by blast
qed

section \<open>Activation without a broker\<close>

lemma standaloneMode_already_set:
  "standaloneMode_m st \<Longrightarrow> st\<lparr>standaloneMode_m := True\<rparr> = st"
  by (cases st) simp

lemma begin_transport_no_broker:
  assumes "broker (config_m st) = None"
  shows "begin_transport ev st = (buildTopics ev (st\<lparr>standaloneMode_m := True\<rparr>), [])"
proof (cases "standaloneMode_m st")
  case True
  with assms show ?thesis
    by (simp add: begin_transport_def Let_def config_buildTopics standaloneMode_already_set)
next
  case False
  with assms show ?thesis
    by (simp add: begin_transport_def Let_def config_buildTopics)
qed

text \<open>
  Claim C8. When the configuration has no broker address, \<open>begin\<close> returns having made
  no call on any collaborator: no client is created, no handler is registered (so no
  connect event can reach the adapter through it) and no connection is attempted. It
  only sets the mode flag and builds the topics; the client references, the ownership
  flag and the connection state are as before. If the adapter had no client, as after
  the standalone constructor, it still has none: \<open>connected\<close> answers \<open>False\<close>, a later
  \<open>poll\<close> makes no call and changes nothing, and another \<open>begin\<close> again does nothing.
\<close>

theorem begin_without_broker:
  "broker (config_m st) = None \<Longrightarrow>
   (let st' = fst (begin_transport ev st)
    in snd (begin_transport ev st) = []
       \<and> st' = buildTopics ev (st\<lparr>standaloneMode_m := True\<rparr>)
       \<and> asyncClient_m st' = asyncClient_m st
       \<and> pubSubClient_m st' = pubSubClient_m st
       \<and> ownsClient_m st' = ownsClient_m st
       \<and> wasConnected_m st' = wasConnected_m st
       \<and> (asyncClient_m st = None \<longrightarrow>
            poll ev' st' = (st', [])
            \<and> snd (begin_transport ev'' st') = []
            \<and> asyncClient_m (fst (begin_transport ev'' st')) = None
            \<and> (pubSubClient_m st = None \<longrightarrow> connected ev' st' = False)))"
proof -
  assume b: "broker (config_m st) = None"
  let ?st' = "buildTopics ev (st\<lparr>standaloneMode_m := True\<rparr>)"
  have run: "begin_transport ev st = (?st', [])"
    using b by (rule begin_transport_no_broker)
  have b': "broker (config_m ?st') = None"
    using b by (simp add: config_buildTopics)
  have again: "begin_transport ev'' ?st'
                 = (buildTopics ev'' (?st'\<lparr>standaloneMode_m := True\<rparr>), [])"
    using b' by (rule begin_transport_no_broker)
  have none: "poll ev' ?st' = (?st', [])
            \<and> snd (begin_transport ev'' ?st') = []
            \<and> asyncClient_m (fst (begin_transport ev'' ?st')) = None
            \<and> (pubSubClient_m st = None \<longrightarrow> connected ev' ?st' = False)"
    if "asyncClient_m st = None"
    using that by (simp add: again poll_def connected_def flags_buildTopics)
  show ?thesis
    unfolding Let_def run fst_conv snd_conv
    using none by (simp add: flags_buildTopics)
qed

theorem begin_without_broker_witness:
  "(let ev = example_env\<lparr>millis := 9000\<rparr>;
        st = MqttTransport_standalone (Some echo_dispatcher) default_config;
        st' = fst (begin_transport ev st)
    in broker (config_m st) = None \<and> asyncClient_m st = None \<and> pubSubClient_m st = None
       \<and> snd (begin_transport ev st) = []
       \<and> asyncClient_m st' = asyncClient_m st
       \<and> poll ev st' = (st', [])
       \<and> connected ev st' = False)"
proof -
  let ?ev = "example_env\<lparr>millis := 9000\<rparr>"
  let ?st = "MqttTransport_standalone (Some echo_dispatcher) default_config"
  have b: "broker (config_m ?st) = None"
    and a: "asyncClient_m ?st = None" and p: "pubSubClient_m ?st = None"
    by code_simp+
  from a p b begin_without_broker [OF b, of ?ev ?ev ?ev, unfolded Let_def]
  show ?thesis
    unfolding Let_def by blast
qed

section \<open>The transport interface\<close>

text \<open>
  Claim C9, as stated, fails in what it says \<open>send\<close> always does. With the owned client
  not connected, \<open>send\<close> answers \<open>False\<close> and publishes nothing. With a connected
  PubSubClient attached and QoS 1 configured, the one publish call \<open>send\<close> makes carries
  no QoS: that client's publish takes the topic, the payload, the length and the retain
  flag only.
\<close>

theorem send_always_publishes_counterexample:
  "(let st = fst (begin_transport example_env
                    (MqttTransport_standalone (Some echo_dispatcher) example_config));
        ev = example_env\<lparr>hasPubSubClient := True, pubSubConnected := True,
                         pubSubPublishResult := True\<rparr>;
        ps = fst (attachTo_PubSub ev
                    (MqttTransport_standalone (Some echo_dispatcher)
                       (example_config\<lparr>qos := 1\<rparr>)) 3)
    in asyncClient_m st = Some 1
       \<and> asyncConnected example_env = False
       \<and> send example_env st PEER_MQTT [7, 8] 2 = (False, [])
       \<and> filter is_publish (snd (send example_env st PEER_MQTT [7, 8] 2)) = []
       \<and> qos (config_m ps) = 1
       \<and> send ev ps PEER_MQTT [7, 8] 2
           = (True, [PubSubPublish 3 ''espmole/test123/resp'' [7, 8] 2 False]))"
  by code_simp

text \<open>
  Claim C9, amended. Two calls of \<open>send\<close> that differ only in the peer give the same
  result and make the same calls: the peer has no influence. \<open>send\<close> is the publish
  operation on the response topic at the configured QoS with retain false, and a message
  goes out only through an attached client that reports connected: through the
  AsyncMqttClient \<open>send\<close> answers \<open>True\<close> and makes exactly one publish call, of the given
  data to the response topic at the configured QoS with retain false; failing that,
  through a compiled-in PubSubClient it answers what that client's publish returns and
  makes exactly one publish call, of the given data to the response topic with retain
  false and no QoS; failing both, it answers \<open>False\<close> and makes no call.
\<close>

theorem send_ignores_peer:
  "send ev st peer1 data len = send ev st peer2 data len
   \<and> send ev st peer1 data len
       = publish ev st (respTopic_m st) data len (qos (config_m st)) False
   \<and> (asyncClient_m st \<noteq> None \<and> asyncConnected ev \<longrightarrow>
        send ev st peer1 data len
          = (True, [AsyncPublish (the (asyncClient_m st)) (respTopic_m st)
                      (qos (config_m st)) False data len]))
   \<and> (\<not> (asyncClient_m st \<noteq> None \<and> asyncConnected ev)
        \<and> hasPubSubClient ev \<and> pubSubClient_m st \<noteq> None \<and> pubSubConnected ev \<longrightarrow>
        send ev st peer1 data len
          = (pubSubPublishResult ev,
             [PubSubPublish (the (pubSubClient_m st)) (respTopic_m st) data len False]))
   \<and> (\<not> (asyncClient_m st \<noteq> None \<and> asyncConnected ev)
        \<and> \<not> (hasPubSubClient ev \<and> pubSubClient_m st \<noteq> None \<and> pubSubConnected ev) \<longrightarrow>
        send ev st peer1 data len = (False, []))"
  by (simp add: send_def publish_def mqttPublish_def)

theorem send_ignores_peer_witness:
  "(let ev = example_env\<lparr>asyncConnected := True\<rparr>;
        st = fst (begin_transport ev
                    (MqttTransport_standalone (Some echo_dispatcher)
                       (example_config\<lparr>qos := 1\<rparr>)));
        pv = example_env\<lparr>hasPubSubClient := True, pubSubConnected := True,
                         pubSubPublishResult := True\<rparr>;
        ps = fst (attachTo_PubSub pv
                    (MqttTransport_standalone (Some echo_dispatcher)
                       (example_config\<lparr>qos := 1\<rparr>)) 3)
    in asyncClient_m st \<noteq> None \<and> asyncConnected ev
       \<and> send ev st PEER_MQTT [7, 8] 2 = send ev st 0 [7, 8] 2
       \<and> send ev st 0 [7, 8] 2
           = (True, [AsyncPublish 1 ''espmole/test123/resp'' 1 False [7, 8] 2])
       \<and> \<not> (asyncClient_m st \<noteq> None \<and> asyncConnected example_env)
       \<and> \<not> (hasPubSubClient example_env \<and> pubSubClient_m st \<noteq> None
              \<and> pubSubConnected example_env)
       \<and> send example_env st PEER_MQTT [7, 8] 2 = (False, [])
       \<and> send example_env st 0 [7, 8] 2 = (False, [])
       \<and> \<not> (asyncClient_m ps \<noteq> None \<and> asyncConnected pv)
       \<and> hasPubSubClient pv \<and> pubSubClient_m ps \<noteq> None \<and> pubSubConnected pv
       \<and> send pv ps PEER_MQTT [7, 8] 2
           = (True, [PubSubPublish 3 ''espmole/test123/resp'' [7, 8] 2 False])
       \<and> send pv ps PEER_MQTT [7, 8] 2 = send pv ps 0 [7, 8] 2)"
proof -
  let ?ev = "example_env\<lparr>asyncConnected := True\<rparr>"
  let ?st = "fst (begin_transport ?ev
                    (MqttTransport_standalone (Some echo_dispatcher)
                       (example_config\<lparr>qos := 1\<rparr>)))"
  let ?pv = "example_env\<lparr>hasPubSubClient := True, pubSubConnected := True,
                         pubSubPublishResult := True\<rparr>"
  let ?ps = "fst (attachTo_PubSub ?pv
                    (MqttTransport_standalone (Some echo_dispatcher)
                       (example_config\<lparr>qos := 1\<rparr>)) 3)"
  have ne: "asyncClient_m ?st \<noteq> None \<and> asyncConnected ?ev"
    by code_simp
  have vals: "the (asyncClient_m ?st) = 1" "respTopic_m ?st = ''espmole/test123/resp''"
      "qos (config_m ?st) = 1"
    by code_simp+
  from send_ignores_peer [of ?ev ?st PEER_MQTT "[7, 8]" 2 0]
  have eq: "send ?ev ?st PEER_MQTT [7, 8] 2 = send ?ev ?st 0 [7, 8] 2"
    by blast
  from ne send_ignores_peer [of ?ev ?st 0 "[7, 8]" 2 0]
  have "send ?ev ?st 0 [7, 8] 2
          = (True, [AsyncPublish (the (asyncClient_m ?st)) (respTopic_m ?st)
                      (qos (config_m ?st)) False [7, 8] 2])"
    by blast
  then have s: "send ?ev ?st 0 [7, 8] 2
          = (True, [AsyncPublish 1 ''espmole/test123/resp'' 1 False [7, 8] 2])"
    by (simp only: vals)
  have off: "\<not> (asyncClient_m ?st \<noteq> None \<and> asyncConnected example_env)"
    and off': "\<not> (hasPubSubClient example_env \<and> pubSubClient_m ?st \<noteq> None
                   \<and> pubSubConnected example_env)"
    by code_simp+
  from off off' send_ignores_peer [of example_env ?st PEER_MQTT "[7, 8]" 2 0]
  have n1: "send example_env ?st PEER_MQTT [7, 8] 2 = (False, [])"
    by blast
  from off off' send_ignores_peer [of example_env ?st 0 "[7, 8]" 2 0]
  have n2: "send example_env ?st 0 [7, 8] 2 = (False, [])"
    by blast
  have pa: "\<not> (asyncClient_m ?ps \<noteq> None \<and> asyncConnected ?pv)"
    and pb: "hasPubSubClient ?pv \<and> pubSubClient_m ?ps \<noteq> None \<and> pubSubConnected ?pv"
    by code_simp+
  have pvals: "the (pubSubClient_m ?ps) = 3" "respTopic_m ?ps = ''espmole/test123/resp''"
      "pubSubPublishResult ?pv = True"
    by code_simp+
  from pa pb send_ignores_peer [of ?pv ?ps PEER_MQTT "[7, 8]" 2 0]
  have "send ?pv ?ps PEER_MQTT [7, 8] 2
          = (pubSubPublishResult ?pv,
             [PubSubPublish (the (pubSubClient_m ?ps)) (respTopic_m ?ps) [7, 8] 2 False])"
    by blast
  then have p1: "send ?pv ?ps PEER_MQTT [7, 8] 2
          = (True, [PubSubPublish 3 ''espmole/test123/resp'' [7, 8] 2 False])"
    by (simp only: pvals)
  from send_ignores_peer [of ?pv ?ps PEER_MQTT "[7, 8]" 2 0]
  have p2: "send ?pv ?ps PEER_MQTT [7, 8] 2 = send ?pv ?ps 0 [7, 8] 2"
    by blast
  from ne eq s off off' n1 n2 pa pb p1 p2 show ?thesis
    unfolding Let_def by blast
qed

text \<open>
  Claim C10. While both client references are null, \<open>connected\<close> answers \<open>False\<close>, and
  \<open>send\<close>, \<open>broadcast\<close>, \<open>publish\<close> and \<open>subscribe\<close> answer \<open>False\<close> and make no call:
  nothing is published and nothing is subscribed to.
\<close>

theorem no_client_nothing_sent:
  "asyncClient_m st = None \<Longrightarrow> pubSubClient_m st = None \<Longrightarrow>
     connected ev st = False
     \<and> send ev st peer data len = (False, [])
     \<and> broadcast ev st data len = (False, [])
     \<and> publish ev st topic data len q retain = (False, [])
     \<and> subscribe ev st topic q = (False, [])"
  by (simp add: connected_def send_def broadcast_def publish_def subscribe_def mqttPublish_def)

theorem no_client_nothing_sent_witness:
  "(let ev = example_env\<lparr>hasPubSubClient := True, asyncConnected := True,
                         pubSubConnected := True, pubSubPublishResult := True,
                         pubSubSubscribeResult := True\<rparr>;
        st = MqttTransport_integration (Some echo_dispatcher)
    in asyncClient_m st = None \<and> pubSubClient_m st = None
       \<and> connected ev st = False
       \<and> send ev st PEER_MQTT [7] 1 = (False, [])
       \<and> broadcast ev st [7] 1 = (False, [])
       \<and> publish ev st ''home/x'' [7] 1 0 False = (False, [])
       \<and> subscribe ev st ''home/x'' 0 = (False, []))"
proof -
  let ?ev = "example_env\<lparr>hasPubSubClient := True, asyncConnected := True,
                         pubSubConnected := True, pubSubPublishResult := True,
                         pubSubSubscribeResult := True\<rparr>"
  let ?st = "MqttTransport_integration (Some echo_dispatcher)"
  have a: "asyncClient_m ?st = None" and p: "pubSubClient_m ?st = None"
    by code_simp+
  from a p no_client_nothing_sent [OF a p, of ?ev PEER_MQTT "[7]" 1 "''home/x''" 0 False]
  show ?thesis unfolding Let_def by blast
qed

end
